theory Spec2Isabelle
  imports Main
begin

section \<open>JavaScript values shared by the two facades\<close>

text \<open>
  Both facades (\<^verbatim>\<open>S3Bucket\<close> in \<^verbatim>\<open>src/clients/s3-bucket.ts\<close>, \<^verbatim>\<open>SqsQueue\<close> in
  \<^verbatim>\<open>src/clients/sqs-queue.ts\<close>) are classes of \<^verbatim>\<open>async\<close> methods around an SDK client.
  What a method does is observable in three places, which the model threads through
  every call as an explicit state: the commands handed to the SDK, the entries written to
  the process-wide logger, and the exception objects created with \<^verbatim>\<open>new\<close>.

  Error objects carry an identity, because the code distinguishes re-raising the caught
  object (\<^verbatim>\<open>throw error\<close>) from raising a new one (\<^verbatim>\<open>throw new SqsQueueException(..)\<close>).
  Objects the SDK raises are \<open>External\<close>; objects the facade creates take the next
  \<open>Allocated\<close> number of the state. The fields are never written after construction
  (\<^verbatim>\<open>public readonly cause\<close>), so an object is its identity with its field values.
\<close>

datatype obj_id = External nat | Allocated nat

datatype js_class = Error_class | S3BucketException_class | SqsQueueException_class

datatype js_error =
  JsError (ident: obj_id) (cls: js_class) (name: string) (message: string)
    (cause: "js_error option")

text \<open>\<^verbatim>\<open>error instanceof C\<close>: both exception classes extend \<^verbatim>\<open>Error\<close> directly and have
  no subclass.\<close>

definition instanceof :: "js_error \<Rightarrow> js_class \<Rightarrow> bool" where
  "instanceof e c = (cls e = c \<or> c = Error_class)"

text \<open>The template literal \<^verbatim>\<open>`${error}`\<close> renders an error with \<^verbatim>\<open>Error.prototype.toString\<close>.\<close>

definition toString :: "js_error \<Rightarrow> string" where
  "toString e =
     (if name e = [] then message e
      else if message e = [] then name e
      else name e @ '': '' @ message e)"

text \<open>
  A call of an SDK function either throws on the spot or returns a promise, which is
  settled later: \<open>Inl e\<close> is a promise rejected with \<open>e\<close>, \<open>Inr v\<close> one fulfilled with \<open>v\<close>.
  The result of an \<^verbatim>\<open>async\<close> method of a facade is always a promise.
\<close>

type_synonym 'a promise = "js_error + 'a"

datatype 'a completion = Throw js_error | Return 'a

text \<open>\<^verbatim>\<open>try { .. await f(..) .. } catch (error)\<close>: a synchronous throw and a rejected
  promise both reach the \<^verbatim>\<open>catch\<close> clause.\<close>

definition await :: "'a promise completion \<Rightarrow> js_error + 'a" where
  "await c = (case c of Throw e \<Rightarrow> Inl e | Return p \<Rightarrow> p)"

datatype log_level = ERROR | WARN | INFO | DEBUG

record 'c world =
  calls :: "'c list"
  logs :: "(log_level \<times> string) list"
  next_id :: nat

definition logger_error :: "string \<Rightarrow> 'c world \<Rightarrow> 'c world" where
  "logger_error msg w = w\<lparr>logs := logs w @ [(ERROR, msg)]\<rparr>"

definition logger_warn :: "string \<Rightarrow> 'c world \<Rightarrow> 'c world" where
  "logger_warn msg w = w\<lparr>logs := logs w @ [(WARN, msg)]\<rparr>"

text \<open>An SDK client answers a command depending on the commands it has served before.\<close>

type_synonym ('c, 'r) client = "'c list \<Rightarrow> 'c \<Rightarrow> 'r promise completion"

definition client_send ::
  "('c, 'r) client \<Rightarrow> 'c \<Rightarrow> 'c world \<Rightarrow> 'r promise completion \<times> 'c world" where
  "client_send client command w = (client (calls w) command, w\<lparr>calls := calls w @ [command]\<rparr>)"

section \<open>The queue facade: \<^verbatim>\<open>SqsQueue\<close>\<close>

text \<open>\<^verbatim>\<open>src/exceptions/sqs-queue-exception.ts\<close>: the constructor sets the message, the name
  of the class and the optional cause.\<close>

definition new_SqsQueueException ::
  "string \<Rightarrow> js_error \<Rightarrow> 'c world \<Rightarrow> js_error \<times> 'c world" where
  "new_SqsQueueException msg err w =
     (JsError (Allocated (next_id w)) SqsQueueException_class ''SqsQueueException'' msg (Some err),
      w\<lparr>next_id := Suc (next_id w)\<rparr>)"

text \<open>The SDK's \<^verbatim>\<open>Message\<close>: every field is optional.\<close>

record Message =
  MessageId :: "string option"
  ReceiptHandle :: "string option"
  Body :: "string option"

datatype sqs_command =
    SendMessageCommand (QueueUrl: string) (MessageBody: "string option") (DelaySeconds: "nat option")
  | DeleteMessageCommand (QueueUrl: string) (ReceiptHandle_of: "string option")
  | ReceiveMessageCommand (QueueUrl: string) (MaxNumberOfMessages: nat) (WaitTimeSeconds: nat)

record sqs_output =
  Messages :: "Message list option"

type_synonym sqs_client = "(sqs_command, sqs_output) client"

record SqsQueue =
  sqsClient_region :: "string option"
  queueUrl :: string
  deadLetterQueueUrl :: string

text \<open>\<^verbatim>\<open>String.prototype.split\<close> with a one-character separator: the pieces between the
  occurrences of the separator, empty pieces included; the empty string gives one empty
  piece. A character other than the separator joins the first piece of the rest (the rest
  always has a first piece, so the \<open>[]\<close> case below is never taken).\<close>

fun js_split :: "char \<Rightarrow> string \<Rightarrow> string list" where
  "js_split sep [] = [[]]"
| "js_split sep (c # cs) =
     (if c = sep then [] # js_split sep cs
      else (case js_split sep cs of [] \<Rightarrow> [[c]] | p # ps \<Rightarrow> (c # p) # ps))"

text \<open>\<^verbatim>\<open>xs[i]\<close> on an array: \<^verbatim>\<open>undefined\<close> out of range.\<close>

definition js_index :: "'a list \<Rightarrow> nat \<Rightarrow> 'a option" where
  "js_index xs i = (if i < length xs then Some (xs ! i) else None)"

definition SqsQueue_constructor :: "string \<Rightarrow> string \<Rightarrow> SqsQueue" where
  "SqsQueue_constructor url dlq_url =
     \<lparr>sqsClient_region = js_index (js_split CHR ''.'' url) 1,
      queueUrl = url,
      deadLetterQueueUrl = dlq_url\<rparr>"

definition sendMessage ::
  "SqsQueue \<Rightarrow> sqs_client \<Rightarrow> string \<Rightarrow> sqs_command world \<Rightarrow> unit promise \<times> sqs_command world" where
  "sendMessage q client messageBody w =
     (let command = SendMessageCommand (queueUrl q) (Some messageBody) None;
          (r, w1) = client_send client command w
      in case await r of
           Inr _ \<Rightarrow> (Inr (), w1)
         | Inl err \<Rightarrow>
             (let w2 = logger_error (''Failed to send message to SQS queue: '' @ toString err) w1;
                  (ex, w3) = new_SqsQueueException ''Failed to send message'' err w2
              in (Inl ex, w3)))"

definition deleteMessage ::
  "SqsQueue \<Rightarrow> sqs_client \<Rightarrow> Message \<Rightarrow> sqs_command world \<Rightarrow> unit promise \<times> sqs_command world" where
  "deleteMessage q client msg w =
     (let command = DeleteMessageCommand (queueUrl q) (ReceiptHandle msg);
          (r, w1) = client_send client command w
      in case await r of
           Inr _ \<Rightarrow> (Inr (), w1)
         | Inl err \<Rightarrow>
             (let w2 = logger_error (''Failed to delete message from SQS queue: '' @ toString err) w1;
                  (ex, w3) = new_SqsQueueException ''Failed to delete message'' err w2
              in (Inl ex, w3)))"

text \<open>\<^verbatim>\<open>receiveMessage(maxNumberOfMessages = 10)\<close>: an omitted argument is \<open>None\<close>.\<close>

definition receiveMessage ::
  "SqsQueue \<Rightarrow> sqs_client \<Rightarrow> nat option \<Rightarrow> sqs_command world
     \<Rightarrow> Message list promise \<times> sqs_command world" where
  "receiveMessage q client maxNumberOfMessages w =
     (let command = ReceiveMessageCommand (queueUrl q)
                      (case maxNumberOfMessages of None \<Rightarrow> 10 | Some n \<Rightarrow> n) 20;
          (r, w1) = client_send client command w
      in case await r of
           Inr response \<Rightarrow>
             (Inr (case Messages response of None \<Rightarrow> [] | Some ms \<Rightarrow> ms), w1)
         | Inl err \<Rightarrow>
             (let w2 = logger_error (''Failed to receive message from SQS queue: '' @ toString err) w1;
                  (ex, w3) = new_SqsQueueException ''Failed to receive message'' err w2
              in (Inl ex, w3)))"

text \<open>The \<^verbatim>\<open>catch\<close> clause of \<^verbatim>\<open>sendMessageToDlq\<close>; it receives whatever the \<^verbatim>\<open>try\<close> block
  raised, from either of its two steps.\<close>

definition sendMessageToDlq_catch ::
  "js_error \<Rightarrow> sqs_command world \<Rightarrow> unit promise \<times> sqs_command world" where
  "sendMessageToDlq_catch err w =
     (if instanceof err SqsQueueException_class
      then (Inl err,
            logger_warn ''Failed to send message to DLQ while deleting message from original queue'' w)
      else (let w1 = logger_error (''Failed to send message to SQS DLQ: '' @ toString err) w;
                (ex, w2) = new_SqsQueueException ''Failed to send message to DLQ'' err w1
            in (Inl ex, w2)))"

definition sendMessageToDlq ::
  "SqsQueue \<Rightarrow> sqs_client \<Rightarrow> Message \<Rightarrow> sqs_command world \<Rightarrow> unit promise \<times> sqs_command world" where
  "sendMessageToDlq q client msg w =
     (case deleteMessage q client msg w of
        (Inl err, w1) \<Rightarrow> sendMessageToDlq_catch err w1
      | (Inr _, w1) \<Rightarrow>
          (let command = SendMessageCommand (deadLetterQueueUrl q) (Body msg) None;
               (r, w2) = client_send client command w1
           in case await r of
                Inl err \<Rightarrow> sendMessageToDlq_catch err w2
              | Inr _ \<Rightarrow> (Inr (), w2)))"

definition rescheduleMessage_catch ::
  "js_error \<Rightarrow> sqs_command world \<Rightarrow> unit promise \<times> sqs_command world" where
  "rescheduleMessage_catch err w =
     (if instanceof err SqsQueueException_class
      then (Inl err,
            logger_warn ''Failed to reschedule message while deleting message from queue'' w)
      else (let w1 = logger_error (''Failed to reschedule message: '' @ toString err) w;
                (ex, w2) = new_SqsQueueException ''Failed to reschedule message'' err w1
            in (Inl ex, w2)))"

definition rescheduleMessage ::
  "SqsQueue \<Rightarrow> sqs_client \<Rightarrow> Message \<Rightarrow> sqs_command world \<Rightarrow> unit promise \<times> sqs_command world" where
  "rescheduleMessage q client msg w =
     (case deleteMessage q client msg w of
        (Inl err, w1) \<Rightarrow> rescheduleMessage_catch err w1
      | (Inr _, w1) \<Rightarrow>
          (let command = SendMessageCommand (queueUrl q) (Body msg) (Some 30);
               (r, w2) = client_send client command w1
           in case await r of
                Inl err \<Rightarrow> rescheduleMessage_catch err w2
              | Inr _ \<Rightarrow> (Inr (), w2)))"

section \<open>The bucket facade: \<^verbatim>\<open>S3Bucket\<close>\<close>

text \<open>\<^verbatim>\<open>src/exceptions/s3-bucket-exception.ts\<close>.\<close>

definition new_S3BucketException ::
  "string \<Rightarrow> js_error \<Rightarrow> 'c world \<Rightarrow> js_error \<times> 'c world" where
  "new_S3BucketException msg err w =
     (JsError (Allocated (next_id w)) S3BucketException_class ''S3BucketException'' msg (Some err),
      w\<lparr>next_id := Suc (next_id w)\<rparr>)"

text \<open>The SDK's \<^verbatim>\<open>_Object\<close> (fields optional), and the payload of an upload:
  \<^verbatim>\<open>string | Buffer | Readable\<close>, a stream being the chunks it delivers.\<close>

record s3_object =
  Key :: "string option"
  Size :: "nat option"

datatype upload_body = StringBody string | BufferBody "char list" | ReadableBody "char list list"

datatype s3_command =
    ListObjectsV2Command string string nat
  | HeadObjectCommand string string
  | GetObjectCommand string string
  | DeleteObjectCommand string string
  | PutObjectCommand string string

record s3_output =
  Contents :: "s3_object list option"
  s3_Body :: "char list list option"
  ContentLength :: "nat option"
  ContentType :: "string option"

text \<open>The options given to \<^verbatim>\<open>new Upload(..)\<close> of \<^verbatim>\<open>@aws-sdk/lib-storage\<close>.\<close>

record upload_options =
  params_Bucket :: string
  params_Key :: string
  params_Body :: upload_body
  partSize :: nat

text \<open>
  The bucket facade talks to three collaborators: the client (\<^verbatim>\<open>this.s3Client.send\<close>),
  the upload helper (\<^verbatim>\<open>new Upload(..).done()\<close>) and the URL signer (\<^verbatim>\<open>getSignedUrl\<close>).
  All three are libraries outside this code base, so they are parameters of the model; the
  state records every interaction with them in order. What the upload helper itself sends
  through the client is decided inside that library and is not part of the record.
\<close>

datatype s3_call =
    Send s3_command
  | UploadDone upload_options
  | GetSignedUrl s3_command nat

record s3_env =
  s3Client_send :: "s3_call list \<Rightarrow> s3_command \<Rightarrow> s3_output promise completion"
  Upload_done :: "s3_call list \<Rightarrow> upload_options \<Rightarrow> unit promise completion"
  getSignedUrl :: "s3_call list \<Rightarrow> s3_command \<Rightarrow> nat \<Rightarrow> string promise completion"

record S3Bucket =
  s3Client_region :: string
  bucketName :: string

definition S3Bucket_constructor :: "string \<Rightarrow> string \<Rightarrow> S3Bucket" where
  "S3Bucket_constructor region bucket = \<lparr>s3Client_region = region, bucketName = bucket\<rparr>"

definition s3_send ::
  "s3_env \<Rightarrow> s3_command \<Rightarrow> s3_call world \<Rightarrow> s3_output promise completion \<times> s3_call world" where
  "s3_send env command w =
     (s3Client_send env (calls w) command, w\<lparr>calls := calls w @ [Send command]\<rparr>)"

text \<open>
  \<^verbatim>\<open>try { .. return f(..); } catch (error)\<close> in an \<^verbatim>\<open>async\<close> method, without \<^verbatim>\<open>await\<close>: only
  a synchronous throw of \<open>f\<close> reaches the \<^verbatim>\<open>catch\<close> clause (\<open>Inl\<close>). A promise that \<open>f\<close>
  returns leaves the \<^verbatim>\<open>try\<close> block as the value of the method and settles the method's
  own promise, a rejection included (\<open>Inr\<close>).
\<close>

definition return_in_try :: "'a promise completion \<Rightarrow> js_error + 'a promise" where
  "return_in_try c = (case c of Throw e \<Rightarrow> Inl e | Return p \<Rightarrow> Inr p)"

definition listObjects ::
  "S3Bucket \<Rightarrow> s3_env \<Rightarrow> string option \<Rightarrow> nat option \<Rightarrow> s3_call world
     \<Rightarrow> s3_object list promise \<times> s3_call world" where
  "listObjects b env prefix maxKeys w =
     (let command = ListObjectsV2Command (bucketName b)
                      (case prefix of None \<Rightarrow> [] | Some p \<Rightarrow> p)
                      (case maxKeys of None \<Rightarrow> 1000 | Some n \<Rightarrow> n);
          (r, w1) = s3_send env command w
      in case await r of
           Inr response \<Rightarrow>
             (Inr (case Contents response of None \<Rightarrow> [] | Some os \<Rightarrow> os), w1)
         | Inl err \<Rightarrow>
             (let w2 = logger_error (''Failed to list objects in S3: '' @ toString err) w1;
                  (ex, w3) = new_S3BucketException ''Failed to list objects in S3'' err w2
              in (Inl ex, w3)))"

definition headObject ::
  "S3Bucket \<Rightarrow> s3_env \<Rightarrow> string \<Rightarrow> s3_call world \<Rightarrow> s3_output promise \<times> s3_call world" where
  "headObject b env key w =
     (let command = HeadObjectCommand (bucketName b) key;
          (r, w1) = s3_send env command w
      in case await r of
           Inr response \<Rightarrow> (Inr response, w1)
         | Inl err \<Rightarrow>
             (let w2 = logger_error (''Failed to head object from S3: '' @ toString err) w1;
                  (ex, w3) = new_S3BucketException ''Failed to head object from S3'' err w2
              in (Inl ex, w3)))"

definition uploadObject ::
  "S3Bucket \<Rightarrow> s3_env \<Rightarrow> string \<Rightarrow> upload_body \<Rightarrow> s3_call world
     \<Rightarrow> unit promise \<times> s3_call world" where
  "uploadObject b env key body w =
     (let upload = \<lparr>params_Bucket = bucketName b, params_Key = key, params_Body = body,
                     partSize = 1024 * 1024 * 100\<rparr>;
          r = Upload_done env (calls w) upload;
          w1 = w\<lparr>calls := calls w @ [UploadDone upload]\<rparr>
      in case await r of
           Inr _ \<Rightarrow> (Inr (), w1)
         | Inl err \<Rightarrow>
             (let w2 = logger_error (''Failed to upload object to S3: '' @ toString err) w1;
                  (ex, w3) = new_S3BucketException ''Failed to upload object to S3'' err w2
              in (Inl ex, w3)))"

definition downloadObject ::
  "S3Bucket \<Rightarrow> s3_env \<Rightarrow> string \<Rightarrow> s3_call world
     \<Rightarrow> char list list option promise \<times> s3_call world" where
  "downloadObject b env key w =
     (let command = GetObjectCommand (bucketName b) key;
          (r, w1) = s3_send env command w
      in case await r of
           Inr response \<Rightarrow> (Inr (s3_Body response), w1)
         | Inl err \<Rightarrow>
             (let w2 = logger_error (''Failed to download object from S3: '' @ toString err) w1;
                  (ex, w3) = new_S3BucketException ''Failed to download object from S3'' err w2
              in (Inl ex, w3)))"

definition deleteObject ::
  "S3Bucket \<Rightarrow> s3_env \<Rightarrow> string \<Rightarrow> s3_call world \<Rightarrow> unit promise \<times> s3_call world" where
  "deleteObject b env key w =
     (let command = DeleteObjectCommand (bucketName b) key;
          (r, w1) = s3_send env command w
      in case await r of
           Inr _ \<Rightarrow> (Inr (), w1)
         | Inl err \<Rightarrow>
             (let w2 = logger_error (''Failed to delete object from S3: '' @ toString err) w1;
                  (ex, w3) = new_S3BucketException ''Failed to delete object from S3'' err w2
              in (Inl ex, w3)))"

definition getPreSignedUrlDownload ::
  "S3Bucket \<Rightarrow> s3_env \<Rightarrow> string \<Rightarrow> nat option \<Rightarrow> s3_call world
     \<Rightarrow> string promise \<times> s3_call world" where
  "getPreSignedUrlDownload b env key expiresIn w =
     (let command = GetObjectCommand (bucketName b) key;
          expires = (case expiresIn of None \<Rightarrow> 900 | Some n \<Rightarrow> n);
          r = getSignedUrl env (calls w) command expires;
          w1 = w\<lparr>calls := calls w @ [GetSignedUrl command expires]\<rparr>
      in case return_in_try r of
           Inr p \<Rightarrow> (p, w1)
         | Inl err \<Rightarrow>
             (let w2 = logger_error (''Failed to get pre-signed url for download: '' @ toString err) w1;
                  (ex, w3) = new_S3BucketException ''Failed to get pre-signed url for download'' err w2
              in (Inl ex, w3)))"

definition getPreSignedUrlForUpload ::
  "S3Bucket \<Rightarrow> s3_env \<Rightarrow> string \<Rightarrow> nat option \<Rightarrow> s3_call world
     \<Rightarrow> string promise \<times> s3_call world" where
  "getPreSignedUrlForUpload b env key expiresIn w =
     (let command = PutObjectCommand (bucketName b) key;
          expires = (case expiresIn of None \<Rightarrow> 900 | Some n \<Rightarrow> n);
          r = getSignedUrl env (calls w) command expires;
          w1 = w\<lparr>calls := calls w @ [GetSignedUrl command expires]\<rparr>
      in case return_in_try r of
           Inr p \<Rightarrow> (p, w1)
         | Inl err \<Rightarrow>
             (let w2 = logger_error (''Failed to get pre-signed url for upload: '' @ toString err) w1;
                  (ex, w3) = new_S3BucketException ''Failed to get pre-signed url for upload'' err w2
              in (Inl ex, w3)))"

section \<open>The queue URL convention, in the words of the specification\<close>

text \<open>
  The specification describes the region of the queue client as ``the queue URL's second
  dot-delimited segment''. Read on its own, without \<^verbatim>\<open>split\<close>: the text after the first dot
  up to the next dot (or to the end of the URL); a URL without a dot has no such segment.
  This definition follows those words and is compared with \<open>SqsQueue_constructor\<close>.
\<close>

definition second_dot_segment :: "string \<Rightarrow> string option" where
  "second_dot_segment url =
     (if CHR ''.'' \<in> set url
      then Some (takeWhile (\<lambda>c. c \<noteq> CHR ''.'') (tl (dropWhile (\<lambda>c. c \<noteq> CHR ''.'') url)))
      else None)"

section \<open>Concrete inputs\<close>

text \<open>The fixtures of the two test suites (\<^verbatim>\<open>sqs-queue.test.ts\<close>, \<^verbatim>\<open>s3-bucket.test.ts\<close>):
  the queue URLs, the test message, the bucket, and SDK doubles that fulfil or reject.\<close>

definition sqs_w0 :: "sqs_command world" where
  "sqs_w0 = \<lparr>calls = [], logs = [], next_id = 0\<rparr>"

definition s3_w0 :: "s3_call world" where
  "s3_w0 = \<lparr>calls = [], logs = [], next_id = 0\<rparr>"

definition testQueue :: SqsQueue where
  "testQueue = SqsQueue_constructor ''https://sqs.region.amazonaws.com/123456789012/MyQueue''
                 ''https://sqs.region.amazonaws.com/123456789012/MyQueue-dlq''"

definition testMessage :: Message where
  "testMessage = \<lparr>MessageId = Some ''test-message-id'', ReceiptHandle = Some ''test-receipt-handle'',
                   Body = Some ''Hello, SQS!''\<rparr>"

definition client_resolves :: sqs_client where
  "client_resolves history command = Return (Inr \<lparr>Messages = None\<rparr>)"

definition plain_error :: js_error where
  "plain_error = JsError (External 0) Error_class ''Error'' ''Delete message failed'' None"

definition wrapped_error :: js_error where
  "wrapped_error = JsError (External 1) SqsQueueException_class ''SqsQueueException''
                     ''Failed to delete message'' (Some plain_error)"

definition client_delete_rejects :: "js_error \<Rightarrow> sqs_client" where
  "client_delete_rejects e history command =
     (case command of
        DeleteMessageCommand _ _ \<Rightarrow> Return (Inl e)
      | _ \<Rightarrow> Return (Inr \<lparr>Messages = None\<rparr>))"

definition client_send_rejects :: "js_error \<Rightarrow> sqs_client" where
  "client_send_rejects e history command =
     (case command of
        SendMessageCommand _ _ _ \<Rightarrow> Return (Inl e)
      | _ \<Rightarrow> Return (Inr \<lparr>Messages = None\<rparr>))"

definition testBucket :: S3Bucket where
  "testBucket = S3Bucket_constructor ''region'' ''testBucket''"

definition no_Contents :: s3_output where
  "no_Contents = \<lparr>Contents = None, s3_Body = None, ContentLength = None, ContentType = None\<rparr>"

definition s3_env_resolves :: "s3_output \<Rightarrow> s3_env" where
  "s3_env_resolves out =
     \<lparr>s3Client_send = (\<lambda>history command. Return (Inr out)),
      Upload_done = (\<lambda>history options. Return (Inr ())),
      getSignedUrl = (\<lambda>history command expires. Return (Inr ''https://example.com/presigned-url''))\<rparr>"

definition sign_error :: js_error where
  "sign_error = JsError (External 2) Error_class ''Error'' ''Get pre-signed URL failed'' None"

text \<open>A signer that fails the way an \<^verbatim>\<open>async\<close> function fails: it returns a promise that is
  rejected.\<close>

definition s3_env_sign_rejects :: "js_error \<Rightarrow> s3_env" where
  "s3_env_sign_rejects e =
     \<lparr>s3Client_send = (\<lambda>history command. Return (Inr no_Contents)),
      Upload_done = (\<lambda>history options. Return (Inr ())),
      getSignedUrl = (\<lambda>history command expires. Return (Inl e))\<rparr>"

section \<open>Evaluation rules and step lemmas\<close>

lemmas sqs_defs = sendMessage_def deleteMessage_def receiveMessage_def sendMessageToDlq_def
  rescheduleMessage_def sendMessageToDlq_catch_def rescheduleMessage_catch_def client_send_def
  await_def logger_error_def logger_warn_def new_SqsQueueException_def instanceof_def toString_def

lemmas sqs_sample_defs = testQueue_def SqsQueue_constructor_def testMessage_def sqs_w0_def
  plain_error_def wrapped_error_def client_resolves_def client_delete_rejects_def
  client_send_rejects_def

lemmas s3_defs = listObjects_def headObject_def uploadObject_def downloadObject_def
  deleteObject_def getPreSignedUrlDownload_def getPreSignedUrlForUpload_def s3_send_def
  return_in_try_def await_def logger_error_def new_S3BucketException_def toString_def

lemmas s3_sample_defs = testBucket_def S3Bucket_constructor_def s3_env_resolves_def no_Contents_def
  sign_error_def s3_env_sign_rejects_def s3_w0_def

lemma testQueue_urls:
  "queueUrl testQueue = ''https://sqs.region.amazonaws.com/123456789012/MyQueue''"
  "deadLetterQueueUrl testQueue = ''https://sqs.region.amazonaws.com/123456789012/MyQueue-dlq''"
  by (simp_all add: testQueue_def SqsQueue_constructor_def)

text \<open>\<^verbatim>\<open>deleteMessage\<close> as a function of the client's answer to its one command.\<close>

lemma deleteMessage_eq:
  "deleteMessage q client msg w =
     (case await (client (calls w) (DeleteMessageCommand (queueUrl q) (ReceiptHandle msg))) of
        Inr _ \<Rightarrow> (Inr (), w\<lparr>calls := calls w @ [DeleteMessageCommand (queueUrl q) (ReceiptHandle msg)]\<rparr>)
      | Inl e \<Rightarrow>
          (Inl (JsError (Allocated (next_id w)) SqsQueueException_class ''SqsQueueException''
                  ''Failed to delete message'' (Some e)),
           w\<lparr>calls := calls w @ [DeleteMessageCommand (queueUrl q) (ReceiptHandle msg)],
             logs := logs w @ [(ERROR, ''Failed to delete message from SQS queue: '' @ toString e)],
             next_id := Suc (next_id w)\<rparr>))"
  by (simp add: deleteMessage_def client_send_def logger_error_def new_SqsQueueException_def
      split: sum.splits)

lemma catch_is_failure:
  "isl (fst (sendMessageToDlq_catch e w))" "isl (fst (rescheduleMessage_catch e w))"
  by (simp_all add: sendMessageToDlq_catch_def rescheduleMessage_catch_def
      new_SqsQueueException_def Let_def)

lemma catch_component:
  assumes "instanceof e SqsQueueException_class"
  shows "sendMessageToDlq_catch e w =
           (Inl e, w\<lparr>logs := logs w @
              [(WARN, ''Failed to send message to DLQ while deleting message from original queue'')]\<rparr>)"
    and "rescheduleMessage_catch e w =
           (Inl e, w\<lparr>logs := logs w @
              [(WARN, ''Failed to reschedule message while deleting message from queue'')]\<rparr>)"
  using assms
  by (simp_all add: sendMessageToDlq_catch_def rescheduleMessage_catch_def logger_warn_def)

lemma catch_other:
  assumes "\<not> instanceof e SqsQueueException_class"
  shows "sendMessageToDlq_catch e w =
           (Inl (JsError (Allocated (next_id w)) SqsQueueException_class ''SqsQueueException''
                   ''Failed to send message to DLQ'' (Some e)),
            w\<lparr>logs := logs w @ [(ERROR, ''Failed to send message to SQS DLQ: '' @ toString e)],
              next_id := Suc (next_id w)\<rparr>)"
    and "rescheduleMessage_catch e w =
           (Inl (JsError (Allocated (next_id w)) SqsQueueException_class ''SqsQueueException''
                   ''Failed to reschedule message'' (Some e)),
            w\<lparr>logs := logs w @ [(ERROR, ''Failed to reschedule message: '' @ toString e)],
              next_id := Suc (next_id w)\<rparr>)"
  using assms
  by (simp_all add: sendMessageToDlq_catch_def rescheduleMessage_catch_def logger_error_def
      new_SqsQueueException_def)

text \<open>The two compound operations when the client fails the delete command: the error
  \<^verbatim>\<open>deleteMessage\<close> raises is a \<^verbatim>\<open>SqsQueueException\<close>, so the \<^verbatim>\<open>catch\<close> clause warns and
  re-raises it, and no send is attempted.\<close>

lemma compound_delete_fails:
  assumes "await (client (calls w) (DeleteMessageCommand (queueUrl q) (ReceiptHandle msg))) = Inl e"
  shows "sendMessageToDlq q client msg w =
           (Inl (JsError (Allocated (next_id w)) SqsQueueException_class ''SqsQueueException''
                   ''Failed to delete message'' (Some e)),
            w\<lparr>calls := calls w @ [DeleteMessageCommand (queueUrl q) (ReceiptHandle msg)],
              logs := logs w @
                [(ERROR, ''Failed to delete message from SQS queue: '' @ toString e),
                 (WARN, ''Failed to send message to DLQ while deleting message from original queue'')],
              next_id := Suc (next_id w)\<rparr>)"
    and "rescheduleMessage q client msg w =
           (Inl (JsError (Allocated (next_id w)) SqsQueueException_class ''SqsQueueException''
                   ''Failed to delete message'' (Some e)),
            w\<lparr>calls := calls w @ [DeleteMessageCommand (queueUrl q) (ReceiptHandle msg)],
              logs := logs w @
                [(ERROR, ''Failed to delete message from SQS queue: '' @ toString e),
                 (WARN, ''Failed to reschedule message while deleting message from queue'')],
              next_id := Suc (next_id w)\<rparr>)"
  using assms
  by (simp_all add: sendMessageToDlq_def rescheduleMessage_def deleteMessage_eq
      sendMessageToDlq_catch_def rescheduleMessage_catch_def instanceof_def logger_warn_def)

text \<open>The two compound operations when the client fulfils the delete command: the outcome is
  decided by the client's answer to the send command.\<close>

lemma compound_delete_ok:
  assumes "await (client (calls w) (DeleteMessageCommand (queueUrl q) (ReceiptHandle msg))) = Inr u"
  shows "sendMessageToDlq q client msg w =
           (case await (client (calls w @ [DeleteMessageCommand (queueUrl q) (ReceiptHandle msg)])
                          (SendMessageCommand (deadLetterQueueUrl q) (Body msg) None)) of
              Inl e \<Rightarrow> sendMessageToDlq_catch e
                (w\<lparr>calls := calls w @ [DeleteMessageCommand (queueUrl q) (ReceiptHandle msg),
                                       SendMessageCommand (deadLetterQueueUrl q) (Body msg) None]\<rparr>)
            | Inr _ \<Rightarrow> (Inr (),
                w\<lparr>calls := calls w @ [DeleteMessageCommand (queueUrl q) (ReceiptHandle msg),
                                       SendMessageCommand (deadLetterQueueUrl q) (Body msg) None]\<rparr>))"
    and "rescheduleMessage q client msg w =
           (case await (client (calls w @ [DeleteMessageCommand (queueUrl q) (ReceiptHandle msg)])
                          (SendMessageCommand (queueUrl q) (Body msg) (Some 30))) of
              Inl e \<Rightarrow> rescheduleMessage_catch e
                (w\<lparr>calls := calls w @ [DeleteMessageCommand (queueUrl q) (ReceiptHandle msg),
                                       SendMessageCommand (queueUrl q) (Body msg) (Some 30)]\<rparr>)
            | Inr _ \<Rightarrow> (Inr (),
                w\<lparr>calls := calls w @ [DeleteMessageCommand (queueUrl q) (ReceiptHandle msg),
                                       SendMessageCommand (queueUrl q) (Body msg) (Some 30)]\<rparr>))"
  using assms
  by (simp_all add: sendMessageToDlq_def rescheduleMessage_def deleteMessage_eq client_send_def
      split: sum.splits)

lemma js_split_unfold:
  "js_split sep s =
     takeWhile (\<lambda>c. c \<noteq> sep) s #
       (case dropWhile (\<lambda>c. c \<noteq> sep) s of [] \<Rightarrow> [] | _ # rest \<Rightarrow> js_split sep rest)"
  by (induction s) (auto split: list.splits)

lemma dropWhile_sep_Nil: "dropWhile (\<lambda>c. c \<noteq> sep) s = [] \<longleftrightarrow> sep \<notin> set s"
  by (induction s) auto

section \<open>Failure paths of the simple operations\<close>

text \<open>Every operation that awaits its SDK call inside \<^verbatim>\<open>try\<close> turns a failure of that call
  into one error-level log entry and one new exception of its component, with the fixed
  message of the operation and the SDK's error as cause.\<close>

lemma s3_awaited_failures:
  fixes b :: S3Bucket and env :: s3_env and w :: "s3_call world"
  shows "await (s3Client_send env (calls w)
            (ListObjectsV2Command (bucketName b) (case prefix of None \<Rightarrow> [] | Some p \<Rightarrow> p)
               (case maxKeys of None \<Rightarrow> 1000 | Some n \<Rightarrow> n))) = Inl e \<Longrightarrow>
         listObjects b env prefix maxKeys w =
           (Inl (JsError (Allocated (next_id w)) S3BucketException_class ''S3BucketException''
                   ''Failed to list objects in S3'' (Some e)),
            w\<lparr>calls := calls w @ [Send (ListObjectsV2Command (bucketName b)
                  (case prefix of None \<Rightarrow> [] | Some p \<Rightarrow> p)
                  (case maxKeys of None \<Rightarrow> 1000 | Some n \<Rightarrow> n))],
              logs := logs w @ [(ERROR, ''Failed to list objects in S3: '' @ toString e)],
              next_id := Suc (next_id w)\<rparr>)"
    and "await (s3Client_send env (calls w) (HeadObjectCommand (bucketName b) key)) = Inl e \<Longrightarrow>
         headObject b env key w =
           (Inl (JsError (Allocated (next_id w)) S3BucketException_class ''S3BucketException''
                   ''Failed to head object from S3'' (Some e)),
            w\<lparr>calls := calls w @ [Send (HeadObjectCommand (bucketName b) key)],
              logs := logs w @ [(ERROR, ''Failed to head object from S3: '' @ toString e)],
              next_id := Suc (next_id w)\<rparr>)"
    and "await (Upload_done env (calls w)
            \<lparr>params_Bucket = bucketName b, params_Key = key, params_Body = body,
              partSize = 104857600\<rparr>) = Inl e \<Longrightarrow>
         uploadObject b env key body w =
           (Inl (JsError (Allocated (next_id w)) S3BucketException_class ''S3BucketException''
                   ''Failed to upload object to S3'' (Some e)),
            w\<lparr>calls := calls w @ [UploadDone
                  \<lparr>params_Bucket = bucketName b, params_Key = key, params_Body = body,
                    partSize = 104857600\<rparr>],
              logs := logs w @ [(ERROR, ''Failed to upload object to S3: '' @ toString e)],
              next_id := Suc (next_id w)\<rparr>)"
    and "await (s3Client_send env (calls w) (GetObjectCommand (bucketName b) key)) = Inl e \<Longrightarrow>
         downloadObject b env key w =
           (Inl (JsError (Allocated (next_id w)) S3BucketException_class ''S3BucketException''
                   ''Failed to download object from S3'' (Some e)),
            w\<lparr>calls := calls w @ [Send (GetObjectCommand (bucketName b) key)],
              logs := logs w @ [(ERROR, ''Failed to download object from S3: '' @ toString e)],
              next_id := Suc (next_id w)\<rparr>)"
    and "await (s3Client_send env (calls w) (DeleteObjectCommand (bucketName b) key)) = Inl e \<Longrightarrow>
         deleteObject b env key w =
           (Inl (JsError (Allocated (next_id w)) S3BucketException_class ''S3BucketException''
                   ''Failed to delete object from S3'' (Some e)),
            w\<lparr>calls := calls w @ [Send (DeleteObjectCommand (bucketName b) key)],
              logs := logs w @ [(ERROR, ''Failed to delete object from S3: '' @ toString e)],
              next_id := Suc (next_id w)\<rparr>)"
  by (simp_all add: listObjects_def headObject_def uploadObject_def downloadObject_def
      deleteObject_def s3_send_def logger_error_def new_S3BucketException_def)

lemma sqs_simple_failures:
  fixes q :: SqsQueue and client :: sqs_client and w :: "sqs_command world"
  shows "await (client (calls w) (SendMessageCommand (queueUrl q) (Some messageBody) None)) = Inl e \<Longrightarrow>
         sendMessage q client messageBody w =
           (Inl (JsError (Allocated (next_id w)) SqsQueueException_class ''SqsQueueException''
                   ''Failed to send message'' (Some e)),
            w\<lparr>calls := calls w @ [SendMessageCommand (queueUrl q) (Some messageBody) None],
              logs := logs w @ [(ERROR, ''Failed to send message to SQS queue: '' @ toString e)],
              next_id := Suc (next_id w)\<rparr>)"
    and "await (client (calls w) (ReceiveMessageCommand (queueUrl q)
            (case maxNumberOfMessages of None \<Rightarrow> 10 | Some n \<Rightarrow> n) 20)) = Inl e \<Longrightarrow>
         receiveMessage q client maxNumberOfMessages w =
           (Inl (JsError (Allocated (next_id w)) SqsQueueException_class ''SqsQueueException''
                   ''Failed to receive message'' (Some e)),
            w\<lparr>calls := calls w @ [ReceiveMessageCommand (queueUrl q)
                  (case maxNumberOfMessages of None \<Rightarrow> 10 | Some n \<Rightarrow> n) 20],
              logs := logs w @ [(ERROR, ''Failed to receive message from SQS queue: '' @ toString e)],
              next_id := Suc (next_id w)\<rparr>)"
    and "await (client (calls w) (DeleteMessageCommand (queueUrl q) (ReceiptHandle msg))) = Inl e \<Longrightarrow>
         deleteMessage q client msg w =
           (Inl (JsError (Allocated (next_id w)) SqsQueueException_class ''SqsQueueException''
                   ''Failed to delete message'' (Some e)),
            w\<lparr>calls := calls w @ [DeleteMessageCommand (queueUrl q) (ReceiptHandle msg)],
              logs := logs w @ [(ERROR, ''Failed to delete message from SQS queue: '' @ toString e)],
              next_id := Suc (next_id w)\<rparr>)"
  by (simp_all add: sendMessage_def receiveMessage_def deleteMessage_def client_send_def
      logger_error_def new_SqsQueueException_def)

text \<open>The two signing operations catch a signer that throws on the spot, which is how the
  test suite makes it fail.\<close>

lemma s3_presign_throw_wrapped:
  fixes b :: S3Bucket and env :: s3_env and w :: "s3_call world"
  shows "getSignedUrl env (calls w) (GetObjectCommand (bucketName b) key)
            (case expiresIn of None \<Rightarrow> 900 | Some n \<Rightarrow> n) = Throw e \<Longrightarrow>
         getPreSignedUrlDownload b env key expiresIn w =
           (Inl (JsError (Allocated (next_id w)) S3BucketException_class ''S3BucketException''
                   ''Failed to get pre-signed url for download'' (Some e)),
            w\<lparr>calls := calls w @ [GetSignedUrl (GetObjectCommand (bucketName b) key)
                  (case expiresIn of None \<Rightarrow> 900 | Some n \<Rightarrow> n)],
              logs := logs w @ [(ERROR, ''Failed to get pre-signed url for download: '' @ toString e)],
              next_id := Suc (next_id w)\<rparr>)"
    and "getSignedUrl env (calls w) (PutObjectCommand (bucketName b) key)
            (case expiresIn of None \<Rightarrow> 900 | Some n \<Rightarrow> n) = Throw e \<Longrightarrow>
         getPreSignedUrlForUpload b env key expiresIn w =
           (Inl (JsError (Allocated (next_id w)) S3BucketException_class ''S3BucketException''
                   ''Failed to get pre-signed url for upload'' (Some e)),
            w\<lparr>calls := calls w @ [GetSignedUrl (PutObjectCommand (bucketName b) key)
                  (case expiresIn of None \<Rightarrow> 900 | Some n \<Rightarrow> n)],
              logs := logs w @ [(ERROR, ''Failed to get pre-signed url for upload: '' @ toString e)],
              next_id := Suc (next_id w)\<rparr>)"
  by (simp_all add: getPreSignedUrlDownload_def getPreSignedUrlForUpload_def return_in_try_def
      logger_error_def new_S3BucketException_def)

text \<open>They do not catch a signer whose promise is rejected: the promise is returned without
  \<^verbatim>\<open>await\<close>, so its rejection becomes the rejection of the operation, with nothing logged and
  no exception created.\<close>

lemma s3_presign_rejection_not_caught:
  fixes b :: S3Bucket and env :: s3_env and w :: "s3_call world"
  shows "getSignedUrl env (calls w) (GetObjectCommand (bucketName b) key)
            (case expiresIn of None \<Rightarrow> 900 | Some n \<Rightarrow> n) = Return (Inl e) \<Longrightarrow>
         getPreSignedUrlDownload b env key expiresIn w =
           (Inl e, w\<lparr>calls := calls w @ [GetSignedUrl (GetObjectCommand (bucketName b) key)
                  (case expiresIn of None \<Rightarrow> 900 | Some n \<Rightarrow> n)]\<rparr>)"
    and "getSignedUrl env (calls w) (PutObjectCommand (bucketName b) key)
            (case expiresIn of None \<Rightarrow> 900 | Some n \<Rightarrow> n) = Return (Inl e) \<Longrightarrow>
         getPreSignedUrlForUpload b env key expiresIn w =
           (Inl e, w\<lparr>calls := calls w @ [GetSignedUrl (PutObjectCommand (bucketName b) key)
                  (case expiresIn of None \<Rightarrow> 900 | Some n \<Rightarrow> n)]\<rparr>)"
  by (simp_all add: getPreSignedUrlDownload_def getPreSignedUrlForUpload_def return_in_try_def)

text \<open>What \<^verbatim>\<open>uploadObject\<close> itself contributes to an upload: it runs the upload helper once,
  on the facade's bucket, the given key and payload, with a part size of 104,857,600 bytes,
  and sends no command of its own. Whether the helper then puts the payload in one request
  or in parts is decided inside \<^verbatim>\<open>@aws-sdk/lib-storage\<close>.\<close>

lemma uploadObject_delegates:
  "calls (snd (uploadObject b env key body w)) =
     calls w @ [UploadDone \<lparr>params_Bucket = bucketName b, params_Key = key, params_Body = body,
                             partSize = 104857600\<rparr>]"
  by (simp add: uploadObject_def logger_error_def new_S3BucketException_def Let_def
      split: sum.splits)

section \<open>The compound operations\<close>

text \<open>
  \<^bold>\<open>C4.\<close> Whenever \<^verbatim>\<open>sendMessageToDlq\<close> succeeds, the queue client has received exactly two
  commands, in this order: a delete on the primary queue URL with the receipt handle of the
  message, then a send to the dead-letter queue URL with the body of the message and no
  \<^verbatim>\<open>DelaySeconds\<close>.
\<close>

theorem sendMessageToDlq_success_calls:
  assumes "fst (sendMessageToDlq q client msg w) = Inr ()"
  shows "calls (snd (sendMessageToDlq q client msg w)) =
           calls w @ [DeleteMessageCommand (queueUrl q) (ReceiptHandle msg),
                      SendMessageCommand (deadLetterQueueUrl q) (Body msg) None]"
proof (cases "await (client (calls w) (DeleteMessageCommand (queueUrl q) (ReceiptHandle msg)))")
  case (Inl e)
  with assms show ?thesis by (simp add: compound_delete_fails)
next
  case del: (Inr u)
  show ?thesis
  proof (cases "await (client (calls w @ [DeleteMessageCommand (queueUrl q) (ReceiptHandle msg)])
                  (SendMessageCommand (deadLetterQueueUrl q) (Body msg) None))")
    case (Inl e)
    with del have "isl (fst (sendMessageToDlq q client msg w))"
      by (simp add: compound_delete_ok catch_is_failure)
    with assms show ?thesis by simp
  next
    case (Inr v)
    with del show ?thesis by (simp add: compound_delete_ok)
  qed
qed

theorem sendMessageToDlq_success_calls_witness:
  "fst (sendMessageToDlq testQueue client_resolves testMessage sqs_w0) = Inr ()
   \<and> calls (snd (sendMessageToDlq testQueue client_resolves testMessage sqs_w0)) =
       [DeleteMessageCommand ''https://sqs.region.amazonaws.com/123456789012/MyQueue''
          (Some ''test-receipt-handle''),
        SendMessageCommand ''https://sqs.region.amazonaws.com/123456789012/MyQueue-dlq''
          (Some ''Hello, SQS!'') None]"
proof -
  have ok: "fst (sendMessageToDlq testQueue client_resolves testMessage sqs_w0) = Inr ()"
    by (simp add: sendMessageToDlq_def deleteMessage_eq client_send_def client_resolves_def
        await_def)
  show ?thesis
    using ok sendMessageToDlq_success_calls [OF ok]
    by (simp add: testQueue_urls testMessage_def sqs_w0_def)
qed

text \<open>
  \<^bold>\<open>C5.\<close> Whenever \<^verbatim>\<open>rescheduleMessage\<close> succeeds, the queue client has received exactly two
  commands, in this order: a delete on the primary queue URL with the receipt handle of the
  message, then a send to the same primary queue URL with the same body and
  \<^verbatim>\<open>DelaySeconds\<close> 30.
\<close>

theorem rescheduleMessage_success_calls:
  assumes "fst (rescheduleMessage q client msg w) = Inr ()"
  shows "calls (snd (rescheduleMessage q client msg w)) =
           calls w @ [DeleteMessageCommand (queueUrl q) (ReceiptHandle msg),
                      SendMessageCommand (queueUrl q) (Body msg) (Some 30)]"
proof (cases "await (client (calls w) (DeleteMessageCommand (queueUrl q) (ReceiptHandle msg)))")
  case (Inl e)
  with assms show ?thesis by (simp add: compound_delete_fails)
next
  case del: (Inr u)
  show ?thesis
  proof (cases "await (client (calls w @ [DeleteMessageCommand (queueUrl q) (ReceiptHandle msg)])
                  (SendMessageCommand (queueUrl q) (Body msg) (Some 30)))")
    case (Inl e)
    with del have "isl (fst (rescheduleMessage q client msg w))"
      by (simp add: compound_delete_ok catch_is_failure)
    with assms show ?thesis by simp
  next
    case (Inr v)
    with del show ?thesis by (simp add: compound_delete_ok)
  qed
qed

theorem rescheduleMessage_success_calls_witness:
  "fst (rescheduleMessage testQueue client_resolves testMessage sqs_w0) = Inr ()
   \<and> calls (snd (rescheduleMessage testQueue client_resolves testMessage sqs_w0)) =
       [DeleteMessageCommand ''https://sqs.region.amazonaws.com/123456789012/MyQueue''
          (Some ''test-receipt-handle''),
        SendMessageCommand ''https://sqs.region.amazonaws.com/123456789012/MyQueue''
          (Some ''Hello, SQS!'') (Some 30)]"
proof -
  have ok: "fst (rescheduleMessage testQueue client_resolves testMessage sqs_w0) = Inr ()"
    by (simp add: rescheduleMessage_def deleteMessage_eq client_send_def client_resolves_def
        await_def)
  show ?thesis
    using ok rescheduleMessage_success_calls [OF ok]
    by (simp add: testQueue_urls testMessage_def sqs_w0_def)
qed

text \<open>
  \<^bold>\<open>C9.\<close> In \<^verbatim>\<open>sendMessageToDlq\<close> and \<^verbatim>\<open>rescheduleMessage\<close> the branch of the \<^verbatim>\<open>catch\<close> clause is
  chosen by the class of the caught error alone, not by the step that raised it.
  \<^item> Every error \<^verbatim>\<open>deleteMessage\<close> raises is a \<^verbatim>\<open>SqsQueueException\<close>; so when the client fails
    the delete command with any error \<open>e\<close>, the compound operation warns and re-raises the
    exception that \<^verbatim>\<open>deleteMessage\<close> created around \<open>e\<close>, creates no second exception and sends
    nothing.
  \<^item> When the delete succeeds and the send fails with an error that is a
    \<^verbatim>\<open>SqsQueueException\<close>, that error is re-raised unchanged with a warning, and nothing is
    logged at error level.
  \<^item> When the delete succeeds and the send fails with any other error, a new
    \<^verbatim>\<open>SqsQueueException\<close> with that error as cause is raised after an error-level entry.
\<close>

theorem compound_branch_by_error_class:
  fixes q :: SqsQueue and client :: sqs_client and msg :: Message and w :: "sqs_command world"
  defines "del \<equiv> DeleteMessageCommand (queueUrl q) (ReceiptHandle msg)"
    and "to_dlq \<equiv> SendMessageCommand (deadLetterQueueUrl q) (Body msg) None"
    and "again \<equiv> SendMessageCommand (queueUrl q) (Body msg) (Some 30)"
  shows
    "(fst (deleteMessage q client msg w) = Inl d \<longrightarrow> instanceof d SqsQueueException_class)
     \<and> (await (client (calls w) del) = Inl e \<longrightarrow>
          sendMessageToDlq q client msg w =
            (Inl (JsError (Allocated (next_id w)) SqsQueueException_class ''SqsQueueException''
                    ''Failed to delete message'' (Some e)),
             w\<lparr>calls := calls w @ [del],
               logs := logs w @
                 [(ERROR, ''Failed to delete message from SQS queue: '' @ toString e),
                  (WARN, ''Failed to send message to DLQ while deleting message from original queue'')],
               next_id := Suc (next_id w)\<rparr>)
          \<and> rescheduleMessage q client msg w =
            (Inl (JsError (Allocated (next_id w)) SqsQueueException_class ''SqsQueueException''
                    ''Failed to delete message'' (Some e)),
             w\<lparr>calls := calls w @ [del],
               logs := logs w @
                 [(ERROR, ''Failed to delete message from SQS queue: '' @ toString e),
                  (WARN, ''Failed to reschedule message while deleting message from queue'')],
               next_id := Suc (next_id w)\<rparr>))
     \<and> (await (client (calls w) del) = Inr u \<and> await (client (calls w @ [del]) to_dlq) = Inl e
          \<and> instanceof e SqsQueueException_class \<longrightarrow>
          sendMessageToDlq q client msg w =
            (Inl e,
             w\<lparr>calls := calls w @ [del, to_dlq],
               logs := logs w @
                 [(WARN, ''Failed to send message to DLQ while deleting message from original queue'')]\<rparr>))
     \<and> (await (client (calls w) del) = Inr u \<and> await (client (calls w @ [del]) again) = Inl e
          \<and> instanceof e SqsQueueException_class \<longrightarrow>
          rescheduleMessage q client msg w =
            (Inl e,
             w\<lparr>calls := calls w @ [del, again],
               logs := logs w @
                 [(WARN, ''Failed to reschedule message while deleting message from queue'')]\<rparr>))
     \<and> (await (client (calls w) del) = Inr u \<and> await (client (calls w @ [del]) to_dlq) = Inl e
          \<and> \<not> instanceof e SqsQueueException_class \<longrightarrow>
          sendMessageToDlq q client msg w =
            (Inl (JsError (Allocated (next_id w)) SqsQueueException_class ''SqsQueueException''
                    ''Failed to send message to DLQ'' (Some e)),
             w\<lparr>calls := calls w @ [del, to_dlq],
               logs := logs w @ [(ERROR, ''Failed to send message to SQS DLQ: '' @ toString e)],
               next_id := Suc (next_id w)\<rparr>))
     \<and> (await (client (calls w) del) = Inr u \<and> await (client (calls w @ [del]) again) = Inl e
          \<and> \<not> instanceof e SqsQueueException_class \<longrightarrow>
          rescheduleMessage q client msg w =
            (Inl (JsError (Allocated (next_id w)) SqsQueueException_class ''SqsQueueException''
                    ''Failed to reschedule message'' (Some e)),
             w\<lparr>calls := calls w @ [del, again],
               logs := logs w @ [(ERROR, ''Failed to reschedule message: '' @ toString e)],
               next_id := Suc (next_id w)\<rparr>))"
proof (intro conjI impI)
  assume "fst (deleteMessage q client msg w) = Inl d"
  then show "instanceof d SqsQueueException_class"
    by (auto simp: deleteMessage_eq instanceof_def split: sum.splits)
qed (simp_all add: del_def to_dlq_def again_def compound_delete_fails compound_delete_ok
      catch_component catch_other)

theorem compound_branch_by_error_class_witness:
  "instanceof (JsError (Allocated 0) SqsQueueException_class ''SqsQueueException''
                 ''Failed to delete message'' (Some plain_error)) SqsQueueException_class
   \<and> rescheduleMessage testQueue (client_delete_rejects plain_error) testMessage sqs_w0 =
       (Inl (JsError (Allocated 0) SqsQueueException_class ''SqsQueueException''
               ''Failed to delete message'' (Some plain_error)),
        \<lparr>calls = [DeleteMessageCommand ''https://sqs.region.amazonaws.com/123456789012/MyQueue''
                    (Some ''test-receipt-handle'')],
         logs = [(ERROR, ''Failed to delete message from SQS queue: Error: Delete message failed''),
                 (WARN, ''Failed to reschedule message while deleting message from queue'')],
         next_id = 1\<rparr>)
   \<and> fst (sendMessageToDlq testQueue (client_send_rejects wrapped_error) testMessage sqs_w0) =
       Inl wrapped_error
   \<and> fst (rescheduleMessage testQueue (client_send_rejects wrapped_error) testMessage sqs_w0) =
       Inl wrapped_error
   \<and> fst (sendMessageToDlq testQueue (client_send_rejects plain_error) testMessage sqs_w0) =
       Inl (JsError (Allocated 0) SqsQueueException_class ''SqsQueueException''
              ''Failed to send message to DLQ'' (Some plain_error))
   \<and> fst (rescheduleMessage testQueue (client_send_rejects plain_error) testMessage sqs_w0) =
       Inl (JsError (Allocated 0) SqsQueueException_class ''SqsQueueException''
              ''Failed to reschedule message'' (Some plain_error))"
proof -
  let ?del = "DeleteMessageCommand (queueUrl testQueue) (ReceiptHandle testMessage)"
  let ?to_dlq = "SendMessageCommand (deadLetterQueueUrl testQueue) (Body testMessage) None"
  let ?again = "SendMessageCommand (queueUrl testQueue) (Body testMessage) (Some 30)"
  let ?d = "JsError (Allocated 0) SqsQueueException_class ''SqsQueueException''
              ''Failed to delete message'' (Some plain_error)"
  note inst = compound_branch_by_error_class
    [where q = testQueue and msg = testMessage and w = sqs_w0]
  have a: "fst (deleteMessage testQueue (client_delete_rejects plain_error) testMessage sqs_w0) = Inl ?d"
    by (simp add: sqs_defs sqs_sample_defs)
  have b: "await (client_delete_rejects plain_error (calls sqs_w0) ?del)
             = Inl plain_error"
    by (simp add: sqs_defs sqs_sample_defs)
  have del_ok: "await (client_send_rejects err (calls sqs_w0) ?del)
             = Inr \<lparr>Messages = None\<rparr>" for err
    by (simp add: client_send_rejects_def await_def)
  have send_fails:
    "await (client_send_rejects err (calls sqs_w0 @ [?del]) ?to_dlq) = Inl err"
    "await (client_send_rejects err (calls sqs_w0 @ [?del]) ?again) = Inl err"
    for err
    by (simp_all add: client_send_rejects_def await_def)
  have component: "instanceof wrapped_error SqsQueueException_class"
    by (simp add: instanceof_def wrapped_error_def)
  have other: "\<not> instanceof plain_error SqsQueueException_class"
    by (simp add: instanceof_def plain_error_def)
  from a inst [where client = "client_delete_rejects plain_error" and d = ?d]
  have 1: "instanceof ?d SqsQueueException_class"
    by blast
  from b inst [where client = "client_delete_rejects plain_error" and e = plain_error]
  have 2: "rescheduleMessage testQueue (client_delete_rejects plain_error) testMessage sqs_w0 =
      (Inl (JsError (Allocated (next_id sqs_w0)) SqsQueueException_class
              ''SqsQueueException'' ''Failed to delete message'' (Some plain_error)),
       sqs_w0\<lparr>calls := calls sqs_w0 @ [?del],
           logs := logs sqs_w0 @
             [(ERROR, ''Failed to delete message from SQS queue: '' @ toString plain_error),
              (WARN, ''Failed to reschedule message while deleting message from queue'')],
           next_id := Suc (next_id sqs_w0)\<rparr>)"
    by blast
  from del_ok [of wrapped_error] send_fails [of wrapped_error] component
    inst [where client = "client_send_rejects wrapped_error" and e = wrapped_error
      and u = "\<lparr>Messages = None\<rparr>"]
  have 3: "sendMessageToDlq testQueue (client_send_rejects wrapped_error) testMessage sqs_w0 =
      (Inl wrapped_error,
       sqs_w0\<lparr>calls := calls sqs_w0 @ [?del, ?to_dlq],
           logs := logs sqs_w0 @
             [(WARN, ''Failed to send message to DLQ while deleting message from original queue'')]\<rparr>)"
    and 4: "rescheduleMessage testQueue (client_send_rejects wrapped_error) testMessage sqs_w0 =
      (Inl wrapped_error,
       sqs_w0\<lparr>calls := calls sqs_w0 @ [?del, ?again],
           logs := logs sqs_w0 @
             [(WARN, ''Failed to reschedule message while deleting message from queue'')]\<rparr>)"
    by blast+
  from del_ok [of plain_error] send_fails [of plain_error] other
    inst [where client = "client_send_rejects plain_error" and e = plain_error
      and u = "\<lparr>Messages = None\<rparr>"]
  have 5: "sendMessageToDlq testQueue (client_send_rejects plain_error) testMessage sqs_w0 =
      (Inl (JsError (Allocated (next_id sqs_w0)) SqsQueueException_class
              ''SqsQueueException'' ''Failed to send message to DLQ'' (Some plain_error)),
       sqs_w0\<lparr>calls := calls sqs_w0 @ [?del, ?to_dlq],
           logs := logs sqs_w0 @ [(ERROR, ''Failed to send message to SQS DLQ: '' @ toString plain_error)],
           next_id := Suc (next_id sqs_w0)\<rparr>)"
    and 6: "rescheduleMessage testQueue (client_send_rejects plain_error) testMessage sqs_w0 =
      (Inl (JsError (Allocated (next_id sqs_w0)) SqsQueueException_class
              ''SqsQueueException'' ''Failed to reschedule message'' (Some plain_error)),
       sqs_w0\<lparr>calls := calls sqs_w0 @ [?del, ?again],
           logs := logs sqs_w0 @ [(ERROR, ''Failed to reschedule message: '' @ toString plain_error)],
           next_id := Suc (next_id sqs_w0)\<rparr>)"
    by blast+
  show ?thesis
    using 1 2 3 4 5 6
    by (simp add: sqs_w0_def toString_def plain_error_def testQueue_urls testMessage_def)
qed

text \<open>
  \<^bold>\<open>C3\<close> (as amended). For every message on which \<^verbatim>\<open>sendMessageToDlq\<close> or \<^verbatim>\<open>rescheduleMessage\<close> is
  invoked:
  \<^item> if the internal delete step, the call of \<^verbatim>\<open>deleteMessage\<close>, fails with an error that is a
    \<^verbatim>\<open>SqsQueueException\<close>, that very object is re-raised and the compound operation adds one
    entry to the log, at warning level;
  \<^item> if the client fails the delete command with an error that is not a
    \<^verbatim>\<open>SqsQueueException\<close>, the error raised is a new \<^verbatim>\<open>SqsQueueException\<close> with that error as
    cause (the one \<^verbatim>\<open>deleteMessage\<close> creates), and an error-level entry is logged for it,
    followed by the warning of the compound operation;
  \<^item> if the delete succeeds and the send fails with an error that is not a
    \<^verbatim>\<open>SqsQueueException\<close>, a new \<^verbatim>\<open>SqsQueueException\<close> with that error as cause is raised and
    exactly one entry, at error level, is logged.
  The claim as stated promises the last behaviour for a send that fails ``for any reason'';
  it does not hold for a send that fails with a \<^verbatim>\<open>SqsQueueException\<close>.
\<close>

theorem compound_failure_attribution:
  fixes q :: SqsQueue and client :: sqs_client and msg :: Message and w :: "sqs_command world"
  defines "del \<equiv> DeleteMessageCommand (queueUrl q) (ReceiptHandle msg)"
    and "to_dlq \<equiv> SendMessageCommand (deadLetterQueueUrl q) (Body msg) None"
    and "again \<equiv> SendMessageCommand (queueUrl q) (Body msg) (Some 30)"
  shows
    "(deleteMessage q client msg w = (Inl d, w1) \<and> instanceof d SqsQueueException_class \<longrightarrow>
        sendMessageToDlq q client msg w =
          (Inl d, w1\<lparr>logs := logs w1 @
             [(WARN, ''Failed to send message to DLQ while deleting message from original queue'')]\<rparr>)
        \<and> rescheduleMessage q client msg w =
          (Inl d, w1\<lparr>logs := logs w1 @
             [(WARN, ''Failed to reschedule message while deleting message from queue'')]\<rparr>))
     \<and> (await (client (calls w) del) = Inl e \<and> \<not> instanceof e SqsQueueException_class \<longrightarrow>
          fst (sendMessageToDlq q client msg w) =
            Inl (JsError (Allocated (next_id w)) SqsQueueException_class ''SqsQueueException''
                   ''Failed to delete message'' (Some e))
          \<and> logs (snd (sendMessageToDlq q client msg w)) =
              logs w @
                [(ERROR, ''Failed to delete message from SQS queue: '' @ toString e),
                 (WARN, ''Failed to send message to DLQ while deleting message from original queue'')]
          \<and> fst (rescheduleMessage q client msg w) =
            Inl (JsError (Allocated (next_id w)) SqsQueueException_class ''SqsQueueException''
                   ''Failed to delete message'' (Some e))
          \<and> logs (snd (rescheduleMessage q client msg w)) =
              logs w @
                [(ERROR, ''Failed to delete message from SQS queue: '' @ toString e),
                 (WARN, ''Failed to reschedule message while deleting message from queue'')])
     \<and> (await (client (calls w) del) = Inr u \<and> await (client (calls w @ [del]) to_dlq) = Inl e
          \<and> \<not> instanceof e SqsQueueException_class \<longrightarrow>
          fst (sendMessageToDlq q client msg w) =
            Inl (JsError (Allocated (next_id w)) SqsQueueException_class ''SqsQueueException''
                   ''Failed to send message to DLQ'' (Some e))
          \<and> logs (snd (sendMessageToDlq q client msg w)) =
              logs w @ [(ERROR, ''Failed to send message to SQS DLQ: '' @ toString e)])
     \<and> (await (client (calls w) del) = Inr u \<and> await (client (calls w @ [del]) again) = Inl e
          \<and> \<not> instanceof e SqsQueueException_class \<longrightarrow>
          fst (rescheduleMessage q client msg w) =
            Inl (JsError (Allocated (next_id w)) SqsQueueException_class ''SqsQueueException''
                   ''Failed to reschedule message'' (Some e))
          \<and> logs (snd (rescheduleMessage q client msg w)) =
              logs w @ [(ERROR, ''Failed to reschedule message: '' @ toString e)])"
proof (intro conjI impI)
  assume a: "deleteMessage q client msg w = (Inl d, w1) \<and> instanceof d SqsQueueException_class"
  then show "sendMessageToDlq q client msg w =
          (Inl d, w1\<lparr>logs := logs w1 @
             [(WARN, ''Failed to send message to DLQ while deleting message from original queue'')]\<rparr>)"
    by (simp add: sendMessageToDlq_def catch_component)
  from a show "rescheduleMessage q client msg w =
          (Inl d, w1\<lparr>logs := logs w1 @
             [(WARN, ''Failed to reschedule message while deleting message from queue'')]\<rparr>)"
    by (simp add: rescheduleMessage_def catch_component)
qed (simp_all add: del_def to_dlq_def again_def compound_delete_fails compound_delete_ok
      catch_other)

text \<open>The first conjunct of the witness is the scenario of the test suite: the client rejects
  the delete command with a \<^verbatim>\<open>SqsQueueException\<close> of the test's own making. \<^verbatim>\<open>deleteMessage\<close>
  logs it at error level and wraps it, and it is the wrapper that the compound operation
  re-raises with its warning.\<close>

theorem compound_failure_attribution_witness:
  "sendMessageToDlq testQueue (client_delete_rejects wrapped_error) testMessage sqs_w0 =
     (Inl (JsError (Allocated 0) SqsQueueException_class ''SqsQueueException''
             ''Failed to delete message'' (Some wrapped_error)),
      \<lparr>calls = [DeleteMessageCommand ''https://sqs.region.amazonaws.com/123456789012/MyQueue''
                  (Some ''test-receipt-handle'')],
       logs = [(ERROR, ''Failed to delete message from SQS queue: SqsQueueException: Failed to delete message''),
               (WARN, ''Failed to send message to DLQ while deleting message from original queue'')],
       next_id = 1\<rparr>)
   \<and> fst (rescheduleMessage testQueue (client_delete_rejects plain_error) testMessage sqs_w0) =
       Inl (JsError (Allocated 0) SqsQueueException_class ''SqsQueueException''
              ''Failed to delete message'' (Some plain_error))
   \<and> logs (snd (rescheduleMessage testQueue (client_delete_rejects plain_error) testMessage sqs_w0)) =
       [(ERROR, ''Failed to delete message from SQS queue: Error: Delete message failed''),
        (WARN, ''Failed to reschedule message while deleting message from queue'')]
   \<and> fst (sendMessageToDlq testQueue (client_send_rejects plain_error) testMessage sqs_w0) =
       Inl (JsError (Allocated 0) SqsQueueException_class ''SqsQueueException''
              ''Failed to send message to DLQ'' (Some plain_error))
   \<and> logs (snd (sendMessageToDlq testQueue (client_send_rejects plain_error) testMessage sqs_w0)) =
       [(ERROR, ''Failed to send message to SQS DLQ: Error: Delete message failed'')]
   \<and> logs (snd (rescheduleMessage testQueue (client_send_rejects plain_error) testMessage sqs_w0)) =
       [(ERROR, ''Failed to reschedule message: Error: Delete message failed'')]"
proof -
  let ?del = "DeleteMessageCommand (queueUrl testQueue) (ReceiptHandle testMessage)"
  let ?to_dlq = "SendMessageCommand (deadLetterQueueUrl testQueue) (Body testMessage) None"
  let ?again = "SendMessageCommand (queueUrl testQueue) (Body testMessage) (Some 30)"
  let ?w1 = "\<lparr>calls = [DeleteMessageCommand ''https://sqs.region.amazonaws.com/123456789012/MyQueue''
                  (Some ''test-receipt-handle'')],
       logs = [(ERROR, ''Failed to delete message from SQS queue: SqsQueueException: Failed to delete message'')],
       next_id = 1\<rparr> :: sqs_command world"
  let ?d = "JsError (Allocated 0) SqsQueueException_class ''SqsQueueException''
             ''Failed to delete message'' (Some wrapped_error)"
  note inst = compound_failure_attribution [where q = testQueue and msg = testMessage and w = sqs_w0]
  have a: "deleteMessage testQueue (client_delete_rejects wrapped_error) testMessage sqs_w0 = (Inl ?d, ?w1)
           \<and> instanceof ?d SqsQueueException_class"
    by (simp add: sqs_defs sqs_sample_defs)
  have b: "await (client_delete_rejects plain_error (calls sqs_w0) ?del) = Inl plain_error
           \<and> \<not> instanceof plain_error SqsQueueException_class"
    by (simp add: sqs_defs sqs_sample_defs)
  have c: "await (client_send_rejects plain_error (calls sqs_w0) ?del) = Inr \<lparr>Messages = None\<rparr>
           \<and> await (client_send_rejects plain_error (calls sqs_w0 @ [?del]) ?to_dlq) = Inl plain_error
           \<and> \<not> instanceof plain_error SqsQueueException_class"
    by (simp add: sqs_defs sqs_sample_defs)
  have c': "await (client_send_rejects plain_error (calls sqs_w0) ?del) = Inr \<lparr>Messages = None\<rparr>
           \<and> await (client_send_rejects plain_error (calls sqs_w0 @ [?del]) ?again) = Inl plain_error
           \<and> \<not> instanceof plain_error SqsQueueException_class"
    by (simp add: sqs_defs sqs_sample_defs)
  from a inst [where client = "client_delete_rejects wrapped_error" and d = ?d and ?w1.0 = ?w1]
  have 1: "sendMessageToDlq testQueue (client_delete_rejects wrapped_error) testMessage sqs_w0 =
          (Inl ?d, ?w1\<lparr>logs := logs ?w1 @
             [(WARN, ''Failed to send message to DLQ while deleting message from original queue'')]\<rparr>)"
    by blast
  from b inst [where client = "client_delete_rejects plain_error" and e = plain_error]
  have 2: "fst (rescheduleMessage testQueue (client_delete_rejects plain_error) testMessage sqs_w0) =
       Inl (JsError (Allocated (next_id sqs_w0)) SqsQueueException_class ''SqsQueueException''
              ''Failed to delete message'' (Some plain_error))
     \<and> logs (snd (rescheduleMessage testQueue (client_delete_rejects plain_error) testMessage sqs_w0)) =
         logs sqs_w0 @
           [(ERROR, ''Failed to delete message from SQS queue: '' @ toString plain_error),
            (WARN, ''Failed to reschedule message while deleting message from queue'')]"
    by blast
  from c inst [where client = "client_send_rejects plain_error" and e = plain_error
      and u = "\<lparr>Messages = None\<rparr>"]
  have 3: "fst (sendMessageToDlq testQueue (client_send_rejects plain_error) testMessage sqs_w0) =
            Inl (JsError (Allocated (next_id sqs_w0)) SqsQueueException_class ''SqsQueueException''
                   ''Failed to send message to DLQ'' (Some plain_error))
          \<and> logs (snd (sendMessageToDlq testQueue (client_send_rejects plain_error) testMessage sqs_w0)) =
              logs sqs_w0 @ [(ERROR, ''Failed to send message to SQS DLQ: '' @ toString plain_error)]"
    by blast
  from c' inst [where client = "client_send_rejects plain_error" and e = plain_error
      and u = "\<lparr>Messages = None\<rparr>"]
  have 4: "logs (snd (rescheduleMessage testQueue (client_send_rejects plain_error) testMessage sqs_w0)) =
              logs sqs_w0 @ [(ERROR, ''Failed to reschedule message: '' @ toString plain_error)]"
    by blast
  show ?thesis
    using 1 2 3 4 by (simp add: sqs_w0_def toString_def plain_error_def)
qed

text \<open>
  The claim C3 as stated fails here: the delete succeeds and the client rejects the send
  with an error that is a \<^verbatim>\<open>SqsQueueException\<close> (created outside the facade, identity
  \<open>External 1\<close>). Both operations re-raise that same object; the only log entry is a warning,
  and no exception is created (\<open>next_id\<close> stays 0).
\<close>

theorem send_step_component_error_rethrown:
  "sendMessageToDlq testQueue (client_send_rejects wrapped_error) testMessage sqs_w0 =
     (Inl wrapped_error,
      \<lparr>calls = [DeleteMessageCommand ''https://sqs.region.amazonaws.com/123456789012/MyQueue''
                  (Some ''test-receipt-handle''),
                SendMessageCommand ''https://sqs.region.amazonaws.com/123456789012/MyQueue-dlq''
                  (Some ''Hello, SQS!'') None],
       logs = [(WARN, ''Failed to send message to DLQ while deleting message from original queue'')],
       next_id = 0\<rparr>)
   \<and> rescheduleMessage testQueue (client_send_rejects wrapped_error) testMessage sqs_w0 =
     (Inl wrapped_error,
      \<lparr>calls = [DeleteMessageCommand ''https://sqs.region.amazonaws.com/123456789012/MyQueue''
                  (Some ''test-receipt-handle''),
                SendMessageCommand ''https://sqs.region.amazonaws.com/123456789012/MyQueue''
                  (Some ''Hello, SQS!'') (Some 30)],
       logs = [(WARN, ''Failed to reschedule message while deleting message from queue'')],
       next_id = 0\<rparr>)
   \<and> ident wrapped_error = External 1"
  by (simp add: sqs_defs sqs_sample_defs)

section \<open>The simple operations\<close>

text \<open>
  \<^bold>\<open>C10.\<close> \<^verbatim>\<open>deleteMessage\<close> validates nothing: for every message, one whose receipt handle is
  undefined included, it sends exactly one delete command to the primary queue URL carrying
  the receipt handle as given, and it fails exactly when the client fails that command.
\<close>

theorem deleteMessage_no_validation:
  "calls (snd (deleteMessage q client msg w)) =
     calls w @ [DeleteMessageCommand (queueUrl q) (ReceiptHandle msg)]
   \<and> calls (snd (deleteMessage q client (msg\<lparr>ReceiptHandle := None\<rparr>) w)) =
       calls w @ [DeleteMessageCommand (queueUrl q) None]
   \<and> isl (fst (deleteMessage q client msg w)) =
       isl (await (client (calls w) (DeleteMessageCommand (queueUrl q) (ReceiptHandle msg))))"
  by (simp add: deleteMessage_eq split: sum.splits)

theorem deleteMessage_no_validation_witness:
  "calls (snd (deleteMessage testQueue client_resolves (testMessage\<lparr>ReceiptHandle := None\<rparr>) sqs_w0)) =
     [DeleteMessageCommand ''https://sqs.region.amazonaws.com/123456789012/MyQueue'' None]
   \<and> isl (fst (deleteMessage testQueue client_resolves testMessage sqs_w0)) = False
   \<and> isl (fst (deleteMessage testQueue (client_delete_rejects plain_error) testMessage sqs_w0)) = True"
  using deleteMessage_no_validation [of testQueue client_resolves testMessage sqs_w0]
    deleteMessage_no_validation [of testQueue "client_delete_rejects plain_error" testMessage sqs_w0]
  by (simp add: testQueue_urls sqs_w0_def client_resolves_def client_delete_rejects_def await_def)

text \<open>
  \<^bold>\<open>C7.\<close> When the service answers the list command with a response whose \<^verbatim>\<open>Contents\<close> is
  missing or empty, \<^verbatim>\<open>listObjects\<close> returns the empty sequence; when it answers the receive
  command with a response whose \<^verbatim>\<open>Messages\<close> is missing or empty, \<^verbatim>\<open>receiveMessage\<close> returns the
  empty sequence. Neither operation fails, and neither logs anything.
\<close>

theorem empty_or_missing_collection:
  fixes b :: S3Bucket and env :: s3_env and w :: "s3_call world"
    and q :: SqsQueue and client :: sqs_client and w' :: "sqs_command world"
  assumes "s3Client_send env (calls w)
             (ListObjectsV2Command (bucketName b) (case prefix of None \<Rightarrow> [] | Some p \<Rightarrow> p)
                (case maxKeys of None \<Rightarrow> 1000 | Some n \<Rightarrow> n)) = Return (Inr response)"
    and "Contents response = None \<or> Contents response = Some []"
    and "client (calls w')
           (ReceiveMessageCommand (queueUrl q)
              (case maxNumberOfMessages of None \<Rightarrow> 10 | Some n \<Rightarrow> n) 20) = Return (Inr response')"
    and "Messages response' = None \<or> Messages response' = Some []"
  shows "fst (listObjects b env prefix maxKeys w) = Inr []
         \<and> logs (snd (listObjects b env prefix maxKeys w)) = logs w
         \<and> fst (receiveMessage q client maxNumberOfMessages w') = Inr []
         \<and> logs (snd (receiveMessage q client maxNumberOfMessages w')) = logs w'"
  using assms
  by (auto simp: listObjects_def receiveMessage_def s3_send_def client_send_def await_def)

theorem empty_or_missing_collection_witness:
  "fst (listObjects testBucket (s3_env_resolves no_Contents) None None s3_w0) = Inr []
   \<and> fst (listObjects testBucket (s3_env_resolves (no_Contents\<lparr>Contents := Some []\<rparr>)) None None s3_w0)
       = Inr []
   \<and> fst (receiveMessage testQueue client_resolves None sqs_w0) = Inr []"
proof -
  have l1: "s3Client_send (s3_env_resolves no_Contents) (calls s3_w0)
             (ListObjectsV2Command (bucketName testBucket) (case None of None \<Rightarrow> [] | Some p \<Rightarrow> p)
                (case None of None \<Rightarrow> 1000 | Some n \<Rightarrow> n)) = Return (Inr no_Contents)"
    by (simp add: s3_env_resolves_def)
  have l2: "Contents no_Contents = None \<or> Contents no_Contents = Some []"
    by (simp add: no_Contents_def)
  have m1: "s3Client_send (s3_env_resolves (no_Contents\<lparr>Contents := Some []\<rparr>)) (calls s3_w0)
             (ListObjectsV2Command (bucketName testBucket) (case None of None \<Rightarrow> [] | Some p \<Rightarrow> p)
                (case None of None \<Rightarrow> 1000 | Some n \<Rightarrow> n))
            = Return (Inr (no_Contents\<lparr>Contents := Some []\<rparr>))"
    by (simp add: s3_env_resolves_def)
  have m2: "Contents (no_Contents\<lparr>Contents := Some []\<rparr>) = None
            \<or> Contents (no_Contents\<lparr>Contents := Some []\<rparr>) = Some []"
    by simp
  have r1: "client_resolves (calls sqs_w0)
           (ReceiveMessageCommand (queueUrl testQueue)
              (case None of None \<Rightarrow> 10 | Some n \<Rightarrow> n) 20) = Return (Inr \<lparr>Messages = None\<rparr>)"
    by (simp add: client_resolves_def)
  have r2: "Messages \<lparr>Messages = None\<rparr> = None \<or> Messages \<lparr>Messages = None\<rparr> = Some []"
    by simp
  show ?thesis
    using
      empty_or_missing_collection [where b = testBucket and env = "s3_env_resolves no_Contents"
        and prefix = None and maxKeys = None and w = s3_w0 and q = testQueue
        and client = client_resolves and maxNumberOfMessages = None and w' = sqs_w0,
        OF l1 l2 r1 r2]
      empty_or_missing_collection [where b = testBucket
        and env = "s3_env_resolves (no_Contents\<lparr>Contents := Some []\<rparr>)"
        and prefix = None and maxKeys = None and w = s3_w0 and q = testQueue
        and client = client_resolves and maxNumberOfMessages = None and w' = sqs_w0,
        OF m1 m2 r1 r2]
    by simp
qed

text \<open>
  \<^bold>\<open>C8.\<close> For every queue URL given to the constructor of \<^verbatim>\<open>SqsQueue\<close>, the region handed to
  the queue client is the second dot-delimited segment of the URL, the element at index 1 of
  the URL split at its dots. A URL without a dot has no such segment, and the region is then
  undefined.
\<close>

theorem region_is_second_dot_segment:
  "sqsClient_region (SqsQueue_constructor url dlq_url) = second_dot_segment url"
proof (cases "dropWhile (\<lambda>c. c \<noteq> CHR ''.'') url")
  case Nil
  then have no_dot: "CHR ''.'' \<notin> set url"
    using dropWhile_sep_Nil [of "CHR ''.''" url] by simp
  have "js_split CHR ''.'' url =
      takeWhile (\<lambda>c. c \<noteq> CHR ''.'') url #
        (case dropWhile (\<lambda>c. c \<noteq> CHR ''.'') url of [] \<Rightarrow> [] | _ # r \<Rightarrow> js_split CHR ''.'' r)"
    by (rule js_split_unfold)
  then have "length (js_split CHR ''.'' url) = 1"
    unfolding Nil by simp
  with no_dot show ?thesis
    by (simp add: SqsQueue_constructor_def second_dot_segment_def js_index_def)
next
  case (Cons d rest)
  then have dot: "CHR ''.'' \<in> set url"
    using dropWhile_sep_Nil [of "CHR ''.''" url] by auto
  have "js_split CHR ''.'' url =
      takeWhile (\<lambda>c. c \<noteq> CHR ''.'') url #
        (case dropWhile (\<lambda>c. c \<noteq> CHR ''.'') url of [] \<Rightarrow> [] | _ # r \<Rightarrow> js_split CHR ''.'' r)"
    by (rule js_split_unfold)
  then have "js_split CHR ''.'' url =
      takeWhile (\<lambda>c. c \<noteq> CHR ''.'') url # js_split CHR ''.'' rest"
    unfolding Cons by simp
  moreover have "js_split CHR ''.'' rest =
      takeWhile (\<lambda>c. c \<noteq> CHR ''.'') rest #
        (case dropWhile (\<lambda>c. c \<noteq> CHR ''.'') rest of [] \<Rightarrow> [] | _ # r \<Rightarrow> js_split CHR ''.'' r)"
    by (rule js_split_unfold)
  ultimately have "js_index (js_split CHR ''.'' url) 1 =
      Some (takeWhile (\<lambda>c. c \<noteq> CHR ''.'') rest)"
    by (simp add: js_index_def)
  moreover have "tl (dropWhile (\<lambda>c. c \<noteq> CHR ''.'') url) = rest"
    unfolding Cons by simp
  ultimately show ?thesis using dot
    by (simp add: SqsQueue_constructor_def second_dot_segment_def)
qed

theorem region_is_second_dot_segment_witness:
  "sqsClient_region testQueue = Some ''region''
   \<and> second_dot_segment ''https://sqs.region.amazonaws.com/123456789012/MyQueue'' = Some ''region''
   \<and> sqsClient_region (SqsQueue_constructor ''http://localhost:4566/000000000000/MyQueue'' []) = None
   \<and> second_dot_segment ''http://localhost:4566/000000000000/MyQueue'' = None"
  using
    region_is_second_dot_segment [of "''https://sqs.region.amazonaws.com/123456789012/MyQueue''"
      "''https://sqs.region.amazonaws.com/123456789012/MyQueue-dlq''"]
    region_is_second_dot_segment [of "''http://localhost:4566/000000000000/MyQueue''" "[]"]
  by (simp add: testQueue_def second_dot_segment_def)

text \<open>
  \<^bold>\<open>C6.\<close> The claim: every simple operation of either facade answers every failure of its SDK
  call with one error-level log entry and its component's exception, the original error as
  cause, never with the raw error. The operations that await their call do
  (\<open>s3_awaited_failures\<close>, \<open>sqs_simple_failures\<close>), and so do the two signing operations for a
  signer that throws on the spot (\<open>s3_presign_throw_wrapped\<close>). They do not for a signer
  whose promise is rejected, which is how \<^verbatim>\<open>getSignedUrl\<close>, an \<^verbatim>\<open>async\<close> function, fails:
  \<^verbatim>\<open>getPreSignedUrlDownload\<close> and \<^verbatim>\<open>getPreSignedUrlForUpload\<close> then reject with the signer's own
  error (class \<^verbatim>\<open>Error\<close>, not \<^verbatim>\<open>S3BucketException\<close>), log nothing and create no exception.
\<close>

theorem presign_rejection_leaks_raw_error:
  "getPreSignedUrlDownload testBucket (s3_env_sign_rejects sign_error) ''test/object1'' None s3_w0 =
     (Inl sign_error,
      \<lparr>calls = [GetSignedUrl (GetObjectCommand ''testBucket'' ''test/object1'') 900],
       logs = [], next_id = 0\<rparr>)
   \<and> getPreSignedUrlForUpload testBucket (s3_env_sign_rejects sign_error) ''test/object1'' None s3_w0 =
     (Inl sign_error,
      \<lparr>calls = [GetSignedUrl (PutObjectCommand ''testBucket'' ''test/object1'') 900],
       logs = [], next_id = 0\<rparr>)
   \<and> cls sign_error = Error_class
   \<and> ident sign_error = External 2"
  by (simp add: s3_defs s3_sample_defs)

end
